theory Spec2Isabelle
  imports Complex_Main
begin

section \<open>Text: Python's string operations used by the chatbot\<close>

text \<open>
  A Python string is modelled as a \<^typ>\<open>string\<close>, a list of 8-bit characters. ASCII text
  is one character per code point; a glyph outside ASCII (the emoji that open some replies)
  is written as its UTF-8 bytes. \<open>str.lower\<close> and the regular expression's word characters are
  modelled on ASCII: a character above 127 is left unchanged by \<open>lower\<close> and is no word
  character.
\<close>

definition upper_letters :: string where
  "upper_letters = ''ABCDEFGHIJKLMNOPQRSTUVWXYZ''"

definition lower_letters :: string where
  "lower_letters = ''abcdefghijklmnopqrstuvwxyz''"

definition digits :: string where
  "digits = ''0123456789''"

definition lower_char :: "char \<Rightarrow> char" where
  "lower_char c = (case map_of (zip upper_letters lower_letters) c of None \<Rightarrow> c | Some d \<Rightarrow> d)"

text \<open>\<open>s.lower()\<close>\<close>

definition lower :: "string \<Rightarrow> string" where
  "lower s = map lower_char s"

text \<open>\<open>s.startswith(p)\<close>, the step of the substring test.\<close>

fun starts_with :: "string \<Rightarrow> string \<Rightarrow> bool" where
  "starts_with [] s = True"
| "starts_with (p # ps) [] = False"
| "starts_with (p # ps) (c # cs) = (p = c \<and> starts_with ps cs)"

text \<open>\<open>sub in s\<close> on strings: \<open>sub\<close> occurs in \<open>s\<close> as a contiguous substring.\<close>

fun contains :: "string \<Rightarrow> string \<Rightarrow> bool" where
  "contains sub [] = (sub = [])"
| "contains sub (c # cs) = (starts_with sub (c # cs) \<or> contains sub cs)"

text \<open>Truthiness of a value that is \<open>None\<close> or a string: \<open>None\<close> and \<open>""\<close> are false.\<close>

fun truthy :: "string option \<Rightarrow> bool" where
  "truthy None = False"
| "truthy (Some s) = (s \<noteq> [])"

section \<open>Exceptions\<close>

text \<open>
  What the code can raise: \<open>ValueError\<close> from \<open>int(...)\<close>, \<open>IndexError\<close> from \<open>iloc[-1]\<close> or
  an index into a list, and whatever the statistics backend raises, carried with its message.
\<close>

datatype exn = ValueError | IndexError | BackendException string

section \<open>Season year and season label\<close>

definition is_digit :: "char \<Rightarrow> bool" where
  "is_digit c = (c \<in> set digits)"

text \<open>The word characters \<open>\w\<close> that decide a word boundary \<open>\b\<close>.\<close>

definition is_word :: "char \<Rightarrow> bool" where
  "is_word c = (c \<in> set (lower_letters @ upper_letters @ digits @ ''_''))"

text \<open>
  The pattern \<open>(20[0-9]{2}|19[0-9]{2})\b\<close> matched at the head of the rest of the text: four
  characters, then the end of the text or a character that is no word character.
\<close>

fun year_here :: "string \<Rightarrow> bool" where
  "year_here (a # b # c # d # rest) =
     (((a = CHR ''2'' \<and> b = CHR ''0'') \<or> (a = CHR ''1'' \<and> b = CHR ''9''))
      \<and> is_digit c \<and> is_digit d
      \<and> (case rest of [] \<Rightarrow> True | e # _ \<Rightarrow> \<not> is_word e))"
| "year_here _ = False"

text \<open>
  \<open>re.search\<close> tries the positions from left to right. \<open>prev_word\<close> says whether the character
  before the position is a word character; the leading \<open>\b\<close> holds, before a digit, exactly
  when it is not.
\<close>

fun search_year :: "bool \<Rightarrow> string \<Rightarrow> string option" where
  "search_year prev_word [] = None"
| "search_year prev_word (c # cs) =
     (if \<not> prev_word \<and> year_here (c # cs) then Some (take 4 (c # cs))
      else search_year (is_word c) cs)"

text \<open>\<open>extract_season_year(text)\<close>: group 1 of the first match, or \<open>None\<close>.\<close>

definition extract_season_year :: "string \<Rightarrow> string option" where
  "extract_season_year text = search_year False text"

definition digit_char :: "nat \<Rightarrow> char" where
  "digit_char d = digits ! d"

text \<open>\<open>str(n)\<close> for a natural number: its decimal digits, no leading zero.\<close>

fun str_nat :: "nat \<Rightarrow> string" where
  "str_nat n = (if n < 10 then [digit_char n] else str_nat (n div 10) @ [digit_char (n mod 10)])"

declare str_nat.simps [simp del]

text \<open>\<open>str(i)\<close> for an integer.\<close>

definition py_str :: "int \<Rightarrow> string" where
  "py_str i = (if i < 0 then CHR ''-'' # str_nat (nat (- i)) else str_nat (nat i))"

definition digit_val :: "char \<Rightarrow> nat option" where
  "digit_val c = map_of (zip digits [0..<10]) c"

fun parse_digits :: "nat \<Rightarrow> string \<Rightarrow> nat option" where
  "parse_digits acc [] = Some acc"
| "parse_digits acc (c # cs) =
     (case digit_val c of None \<Rightarrow> None | Some d \<Rightarrow> parse_digits (10 * acc + d) cs)"

text \<open>
  \<open>int(s)\<close> on a string of decimal digits; anything else is a \<open>ValueError\<close>. (Python also
  reads a sign, surrounding blanks and underscores; a season year is a group of the regular
  expression above, four digits, and has none of them.)
\<close>

definition py_int :: "string \<Rightarrow> exn + int" where
  "py_int s = (if s = [] then Inl ValueError
               else case parse_digits 0 s of None \<Rightarrow> Inl ValueError | Some n \<Rightarrow> Inr (int n))"

text \<open>\<open>s[-2:]\<close>: the last two characters, or all of a shorter string.\<close>

definition last_two :: "string \<Rightarrow> string" where
  "last_two s = drop (length s - 2) s"

text \<open>
  The season label, \<open>f"{int(season_year)-1}-{str(season_year)[-2:]}"\<close>, as it stands in
  \<open>get_stats_for_season\<close>, \<open>get_top_scorers\<close> and \<open>generate_response\<close>.
\<close>

definition season_id :: "string \<Rightarrow> exn + string" where
  "season_id season_year =
     (case py_int season_year of
        Inl e \<Rightarrow> Inl e
      | Inr y \<Rightarrow> Inr (py_str (y - 1) @ ''-'' @ last_two season_year))"

text \<open>The two-digit, zero-padded suffix of a year.\<close>

definition two_digit_suffix :: "int \<Rightarrow> string" where
  "two_digit_suffix y = [digit_char (nat y div 10 mod 10), digit_char (nat y mod 10)]"

section \<open>The roster and the name resolvers\<close>

record player =
  player_id :: int
  full_name :: string
  is_active :: bool

text \<open>\<open>player_names = [p['full_name'] for p in all_players]\<close>\<close>

definition player_names :: "player list \<Rightarrow> string list" where
  "player_names all_players = map full_name all_players"

text \<open>\<open>find_player_id(player_name)\<close>: the id of the first roster entry with that name, case ignored.\<close>

fun find_player_id :: "player list \<Rightarrow> string \<Rightarrow> int option" where
  "find_player_id [] player_name = None"
| "find_player_id (p # ps) player_name =
     (if lower (full_name p) = lower player_name then Some (player_id p)
      else find_player_id ps player_name)"

text \<open>
  The loop of \<open>find_multiple_players\<close>: \<open>found\<close> is the list collected so far; the loop stops
  as soon as it holds two names.
\<close>

fun scan_names :: "string list \<Rightarrow> string \<Rightarrow> string list \<Rightarrow> string list" where
  "scan_names [] text found = found"
| "scan_names (name # names) text found =
     (let found' = (if contains (lower name) (lower text) then found @ [name] else found)
      in if length found' = 2 then found' else scan_names names text found')"

text \<open>\<open>find_multiple_players(text)\<close>\<close>

definition find_multiple_players :: "player list \<Rightarrow> string \<Rightarrow> string list option" where
  "find_multiple_players all_players text =
     (let found = scan_names (player_names all_players) text []
      in if length found = 2 then Some found else None)"

text \<open>The roster names that occur in the text, in roster order.\<close>

definition names_present :: "player list \<Rightarrow> string \<Rightarrow> string list" where
  "names_present all_players text =
     filter (\<lambda>name. contains (lower name) (lower text)) (player_names all_players)"

section \<open>The statistics backend and the similarity matcher\<close>

text \<open>
  A row of the career data frame (\<open>PlayerCareerStats(...).get_data_frames()[0]\<close>), with the
  columns the code reads. The numbers are carried as rationals; the code only formats them.
\<close>

record stat_row =
  SEASON_ID :: string
  TEAM_ABBREVIATION :: string
  PTS :: rat
  AST :: rat
  REB :: rat
  GP :: rat
  FG_PCT :: rat

text \<open>A row of the league leaders' data frame, restricted to \<open>['PLAYER', 'TEAM', stat]\<close>.\<close>

record leader_row =
  PLAYER :: string
  TEAM :: string
  stat_value :: rat

text \<open>A call to the backend, recorded in the order the calls are made.\<close>

datatype call =
    CareerStatsCall "int option"
  | LeagueLeadersCall string
  | PlayerInfoCall int

text \<open>
  The surroundings of the code: the roster loaded at start-up (\<open>players.get_players()\<close>), the
  three endpoints of the backend, and \<open>difflib.get_close_matches(word, possibilities, n,
  cutoff=0.5)\<close>. An endpoint returns its first data frame, or \<open>Inl\<close> with the message of the
  exception it raised. For the player's biography the frame's first row is returned, a list
  of fields whose value is \<open>None\<close> when the backend has NaN there.
\<close>

record env =
  all_players :: "player list"
  get_close_matches :: "string \<Rightarrow> string list \<Rightarrow> nat \<Rightarrow> string list"
  PlayerCareerStats :: "int option \<Rightarrow> string + stat_row list"
  LeagueLeaders :: "string \<Rightarrow> string + leader_row list"
  CommonPlayerInfo :: "int \<Rightarrow> string + (string \<times> string option) list"

text \<open>\<open>find_closest_names(text, limit)\<close>\<close>

definition find_closest_names :: "env \<Rightarrow> string \<Rightarrow> nat \<Rightarrow> string list" where
  "find_closest_names w text limit =
     get_close_matches w text (player_names (all_players w)) limit"

section \<open>Replies\<close>

text \<open>The dictionary returned by \<open>get_stats_for_season\<close>.\<close>

record stats =
  season :: string
  team :: string
  pts :: rat
  ast :: rat
  reb :: rat
  games :: rat
  fg_pct :: rat

text \<open>The dictionary returned by \<open>get_career_averages\<close>.\<close>

record averages =
  avg_pts :: rat
  avg_ast :: rat
  avg_reb :: rat
  avg_games :: rat
  avg_fg_pct :: rat

text \<open>The keyword scan that picks what a single-player answer shows.\<close>

datatype subfield = Points | Assists | Rebounds | Team | FgPct | Summary

text \<open>
  What \<open>generate_response\<close> returns. A reply without numbers is its text. A reply that formats
  numbers (\<open>:.1f\<close>) is kept as the values that go into the text: the season label and the rows
  of the leaders' table, the player and the averages, the two players and their statistics,
  the player, the chosen field and the statistics.
\<close>

datatype reply =
    Text string
  | TopScorersTable string "leader_row list"
  | CareerAveragesReply string averages
  | ComparisonTable string string stats stats
  | StatReply subfield string stats

text \<open>The intent whose handler a turn ran; \<open>Unrecognized\<close> is the terminal failure.\<close>

datatype intent = TopScorers | CareerAverages | Bio | Compare | SeasonStat | Unrecognized

definition apostrophe :: string where
  "apostrophe = [CHR 0x27]"

definition newline :: string where
  "newline = [CHR 0x0A]"

text \<open>The emoji of the replies, in UTF-8: cross mark, check mark, DNA.\<close>

definition cross_mark :: string where
  "cross_mark = [CHR 0xE2, CHR 0x9D, CHR 0x8C]"

definition check_mark :: string where
  "check_mark = [CHR 0xE2, CHR 0x9C, CHR 0x85]"

definition dna :: string where
  "dna = [CHR 0xF0, CHR 0x9F, CHR 0xA7, CHR 0xAC]"

text \<open>\<open>f"{x}"\<close> for a value that is \<open>None\<close> or a string.\<close>

fun format_opt :: "string option \<Rightarrow> string" where
  "format_opt None = ''None''"
| "format_opt (Some s) = s"

text \<open>\<open>not pid\<close> for a value that is \<open>None\<close> or an integer: \<open>None\<close> and \<open>0\<close> are false.\<close>

fun falsy_id :: "int option \<Rightarrow> bool" where
  "falsy_id None = True"
| "falsy_id (Some i) = (i = 0)"

section \<open>The handlers\<close>

text \<open>A handler returns what it returns or raises, and the backend calls it made.\<close>

type_synonym 'a result = "(exn + 'a) \<times> call list"

definition stats_of_row :: "stat_row \<Rightarrow> stats" where
  "stats_of_row row =
     \<lparr>season = SEASON_ID row, team = TEAM_ABBREVIATION row, pts = PTS row, ast = AST row,
      reb = REB row, games = GP row, fg_pct = FG_PCT row\<rparr>"

text \<open>
  The choice of the row in \<open>get_stats_for_season\<close>: with a season year, the first row whose
  label is the computed one, \<open>None\<close> when there is none; without, \<open>df.iloc[-1]\<close>, which raises on
  an empty frame.
\<close>

fun select_row :: "stat_row list \<Rightarrow> string option \<Rightarrow> exn + stat_row option" where
  "select_row df (Some (c # cs)) =
     (case season_id (c # cs) of
        Inl e \<Rightarrow> Inl e
      | Inr sid \<Rightarrow>
          (case filter (\<lambda>row. SEASON_ID row = sid) df of
             [] \<Rightarrow> Inr None
           | row # _ \<Rightarrow> Inr (Some row)))"
| "select_row df _ = (if df = [] then Inl IndexError else Inr (Some (last df)))"

text \<open>\<open>get_stats_for_season(player_id, season_year)\<close>; no \<open>try\<close> around the backend call.\<close>

definition get_stats_for_season :: "env \<Rightarrow> int option \<Rightarrow> string option \<Rightarrow> stats option result" where
  "get_stats_for_season w pid season_year =
     (case PlayerCareerStats w pid of
        Inl msg \<Rightarrow> (Inl (BackendException msg), [CareerStatsCall pid])
      | Inr df \<Rightarrow>
          (case select_row df season_year of
             Inl e \<Rightarrow> (Inl e, [CareerStatsCall pid])
           | Inr row \<Rightarrow> (Inr (map_option stats_of_row row), [CareerStatsCall pid])))"

text \<open>\<open>compare_players(name1, name2, season_year)\<close>\<close>

definition compare_players :: "env \<Rightarrow> string \<Rightarrow> string \<Rightarrow> string option \<Rightarrow> reply result" where
  "compare_players w name1 name2 season_year =
     (let id1 = find_player_id (all_players w) name1;
          id2 = find_player_id (all_players w) name2
      in if falsy_id id1 \<or> falsy_id id2
         then (Inr (Text (''Could not find both players: '' @ name1 @ '' and '' @ name2 @ ''.'')), [])
         else
           (case get_stats_for_season w id1 season_year of
              (Inl e, cs1) \<Rightarrow> (Inl e, cs1)
            | (Inr stats1, cs1) \<Rightarrow>
                (case get_stats_for_season w id2 season_year of
                   (Inl e, cs2) \<Rightarrow> (Inl e, cs1 @ cs2)
                 | (Inr stats2, cs2) \<Rightarrow>
                     (case (stats1, stats2) of
                        (Some s1, Some s2) \<Rightarrow> (Inr (ComparisonTable name1 name2 s1 s2), cs1 @ cs2)
                      | _ \<Rightarrow>
                          (Inr (Text (cross_mark @ '' Stats not available for one or both players in ''
                                      @ format_opt season_year @ ''.'')),
                           cs1 @ cs2)))))"

text \<open>
  \<open>get_top_scorers(season_year, stat)\<close>: the label is computed before the \<open>try\<close>; whatever
  the backend raises inside it becomes the reply of the bare \<open>except\<close>.
\<close>

definition get_top_scorers :: "env \<Rightarrow> string \<Rightarrow> string \<Rightarrow> reply result" where
  "get_top_scorers w season_year stat =
     (case season_id season_year of
        Inl e \<Rightarrow> (Inl e, [])
      | Inr sid \<Rightarrow>
          (case LeagueLeaders w sid of
             Inl msg \<Rightarrow>
               (Inr (Text (''Couldn'' @ apostrophe @ ''t fetch top '' @ stat @ '' leaders for '' @ sid @ ''.'')),
                [LeagueLeadersCall sid])
           | Inr df \<Rightarrow> (Inr (TopScorersTable sid (take 5 df)), [LeagueLeadersCall sid])))"

text \<open>\<open>get_career_averages(player_id)\<close>; no \<open>try\<close> around the backend call.\<close>

definition get_career_averages :: "env \<Rightarrow> int \<Rightarrow> averages result" where
  "get_career_averages w pid =
     (case PlayerCareerStats w (Some pid) of
        Inl msg \<Rightarrow> (Inl (BackendException msg), [CareerStatsCall (Some pid)])
      | Inr df \<Rightarrow>
          (if df = [] then (Inl IndexError, [CareerStatsCall (Some pid)])
           else
             (let row = last df
              in (Inr \<lparr>avg_pts = PTS row, avg_ast = AST row, avg_reb = REB row,
                       avg_games = GP row, avg_fg_pct = FG_PCT row\<rparr>,
                  [CareerStatsCall (Some pid)]))))"

text \<open>\<open>safe(field)\<close> inside \<open>get_player_bio\<close>: a missing, NaN or empty value reads \<open>N/A\<close>.\<close>

definition safe :: "(string \<times> string option) list \<Rightarrow> string \<Rightarrow> string" where
  "safe data field =
     (case map_of data field of
        None \<Rightarrow> ''N/A''
      | Some None \<Rightarrow> ''N/A''
      | Some (Some v) \<Rightarrow> (if v = [] then ''N/A'' else v))"

definition bio_text :: "player \<Rightarrow> (string \<times> string option) list \<Rightarrow> string" where
  "bio_text p data =
     dna @ '' **'' @ safe data ''DISPLAY_FIRST_LAST'' @ ''**'' @ newline @ newline
     @ ''**Position:** '' @ safe data ''POSITION'' @ newline @ newline
     @ ''**Team:** '' @ safe data ''TEAM_NAME'' @ '' ('' @ safe data ''TEAM_ABBREVIATION'' @ '')''
     @ newline @ newline
     @ ''**Height:** '' @ safe data ''HEIGHT'' @ ''  |  **Weight:** '' @ safe data ''WEIGHT''
     @ '' lbs'' @ newline @ newline
     @ ''**Birth Date:** ''
     @ (if safe data ''BIRTHDATE'' \<noteq> ''N/A'' then take 10 (safe data ''BIRTHDATE'') else ''N/A'')
     @ newline @ newline
     @ ''**Country:** '' @ safe data ''COUNTRY'' @ newline @ newline
     @ ''**Draft Info:** '' @ safe data ''DRAFT_YEAR'' @ '' Round '' @ safe data ''DRAFT_ROUND''
     @ '', Pick '' @ safe data ''DRAFT_NUMBER'' @ newline @ newline
     @ ''**Years Pro:** '' @ safe data ''SEASON_EXP'' @ newline @ newline
     @ ''**Is Active:** '' @ (if is_active p then check_mark @ '' Yes'' else cross_mark @ '' No'')"

text \<open>
  \<open>get_player_bio(name)\<close>: the roster lookup is outside the \<open>try\<close>; an exception of the
  backend call becomes the reply of \<open>except Exception\<close>, with its message.
\<close>

definition get_player_bio :: "env \<Rightarrow> string \<Rightarrow> reply result" where
  "get_player_bio w name =
     (case find (\<lambda>p. lower (full_name p) = lower name) (all_players w) of
        None \<Rightarrow> (Inr (Text ''Player not found.''), [])
      | Some p \<Rightarrow>
          (case CommonPlayerInfo w (player_id p) of
             Inl msg \<Rightarrow>
               (Inr (Text (cross_mark @ '' Could not fetch detailed bio for '' @ name
                           @ ''. Error: '' @ msg)),
                [PlayerInfoCall (player_id p)])
           | Inr data \<Rightarrow> (Inr (Text (bio_text p data)), [PlayerInfoCall (player_id p)])))"

section \<open>The turn: \<open>generate_response\<close>\<close>

text \<open>The two remembered fields of \<open>st.session_state\<close> that \<open>generate_response\<close> reads and writes.\<close>

record session_state =
  last_player :: "string option"
  last_season :: "string option"

text \<open>
  What a turn leaves: the intent whose handler ran, the reply returned or the exception that
  left \<open>generate_response\<close>, the session state, and the backend calls made.
\<close>

record outcome =
  intent :: intent
  response :: "exn + reply"
  state :: session_state
  calls :: "call list"

text \<open>The season of the turn: the year of the utterance, stored, or else the stored one.\<close>

definition resolve_season :: "session_state \<Rightarrow> string option \<Rightarrow> string option \<times> session_state" where
  "resolve_season st year =
     (if \<not> truthy year then (last_season st, st) else (year, st\<lparr>last_season := year\<rparr>))"

text \<open>The player of the turn: the closest roster name, stored, or else the stored one.\<close>

definition resolve_player :: "env \<Rightarrow> session_state \<Rightarrow> string \<Rightarrow> string option \<times> session_state" where
  "resolve_player w st user_input =
     (case find_closest_names w user_input 1 of
        [] \<Rightarrow> (last_player st, st)
      | name # _ \<Rightarrow> (Some name, st\<lparr>last_player := Some name\<rparr>))"

definition top_trigger :: "string \<Rightarrow> bool" where
  "top_trigger text =
     (contains ''top'' text
      \<and> (contains ''scorers'' text \<or> contains ''points'' text \<or> contains ''ppg'' text))"

definition career_trigger :: "string \<Rightarrow> bool" where
  "career_trigger text =
     (contains ''career'' text \<or> contains ''all-time'' text \<or> contains ''all time'' text)"

definition bio_trigger :: "string \<Rightarrow> bool" where
  "bio_trigger text = (contains ''bio'' text \<or> contains ''info'' text)"

text \<open>\<open>player_name\<close> where \<open>if player_name\<close> holds: a name that is neither \<open>None\<close> nor empty.\<close>

fun name_guard :: "string option \<Rightarrow> string option" where
  "name_guard (Some (c # cs)) = Some (c # cs)"
| "name_guard _ = None"

text \<open>\<open>if player_name and (...)\<close>, for the keywords of the career and of the bio rule.\<close>

definition career_guard :: "string option \<Rightarrow> string \<Rightarrow> string option" where
  "career_guard player_name text = (if career_trigger text then name_guard player_name else None)"

definition bio_guard :: "string option \<Rightarrow> string \<Rightarrow> string option" where
  "bio_guard player_name text = (if bio_trigger text then name_guard player_name else None)"

text \<open>\<open>if players_in_text\<close>: a list that is neither \<open>None\<close> nor empty.\<close>

fun list_guard :: "string list option \<Rightarrow> string list option" where
  "list_guard (Some (n # ns)) = Some (n # ns)"
| "list_guard _ = None"

definition year_prompt :: string where
  "year_prompt = ''Please specify a year, like '' @ apostrophe @ ''Top scorers 2022'' @ apostrophe @ ''.''"

definition not_recognized :: string where
  "not_recognized =
     ''I couldn'' @ apostrophe @ ''t recognize any player. Try again with a name like ''
     @ apostrophe @ ''LeBron James'' @ apostrophe @ ''.''"

text \<open>The body of the top-scorers rule.\<close>

fun top_scorers_branch :: "env \<Rightarrow> string option \<Rightarrow> reply result" where
  "top_scorers_branch w (Some (c # cs)) = get_top_scorers w (c # cs) ''PTS''"
| "top_scorers_branch w _ = (Inr (Text year_prompt), [])"

text \<open>The body of the career rule.\<close>

definition career_branch :: "env \<Rightarrow> string \<Rightarrow> reply result" where
  "career_branch w player_name =
     (let pid = find_player_id (all_players w) player_name
      in if falsy_id pid then (Inr (Text (''Player '' @ player_name @ '' not found.'')), [])
         else
           (case pid of
              None \<Rightarrow> (Inr (Text (''Player '' @ player_name @ '' not found.'')), [])
            | Some i \<Rightarrow>
                (case get_career_averages w i of
                   (Inl e, cs) \<Rightarrow> (Inl e, cs)
                 | (Inr career, cs) \<Rightarrow> (Inr (CareerAveragesReply player_name career), cs))))"

text \<open>The body of the comparison rule: \<open>players_in_text[0]\<close> and \<open>players_in_text[1]\<close>.\<close>

fun compare_branch :: "env \<Rightarrow> string list \<Rightarrow> string option \<Rightarrow> reply result" where
  "compare_branch w (name1 # name2 # _) season_year = compare_players w name1 name2 season_year"
| "compare_branch w _ season_year = (Inl IndexError, [])"

text \<open>The reply when \<open>get_stats_for_season\<close> returned \<open>None\<close>.\<close>

fun did_not_play :: "string \<Rightarrow> string option \<Rightarrow> exn + reply" where
  "did_not_play player_name (Some (c # cs)) =
     (case season_id (c # cs) of
        Inl e \<Rightarrow> Inl e
      | Inr sid \<Rightarrow>
          Inr (Text (cross_mark @ '' '' @ player_name @ '' did not play in the '' @ sid @ '' season.'')))"
| "did_not_play player_name _ = Inr (Text (cross_mark @ '' No stats found for '' @ player_name @ ''.''))"

text \<open>The second keyword scan, for what the answer about one player shows.\<close>

definition choose_subfield :: "string \<Rightarrow> subfield" where
  "choose_subfield text =
     (if contains ''points'' text \<or> contains ''ppg'' text then Points
      else if contains ''assists'' text \<or> contains ''apg'' text then Assists
      else if contains ''rebounds'' text \<or> contains ''rpg'' text then Rebounds
      else if contains ''team'' text then Team
      else if contains ''fg'' text \<or> contains ''field goal'' text then FgPct
      else Summary)"

text \<open>The last rule: the statistics of one player for the season of the turn.\<close>

definition season_stat_branch :: "env \<Rightarrow> string \<Rightarrow> string \<Rightarrow> string option \<Rightarrow> reply result" where
  "season_stat_branch w text player_name season_year =
     (case get_stats_for_season w (find_player_id (all_players w) player_name) season_year of
        (Inl e, cs) \<Rightarrow> (Inl e, cs)
      | (Inr None, cs) \<Rightarrow> (did_not_play player_name season_year, cs)
      | (Inr (Some s), cs) \<Rightarrow> (Inr (StatReply (choose_subfield text) player_name s), cs))"

text \<open>
  The chain of \<open>if ...: return ...\<close> of \<open>generate_response\<close>, in the order of the source. Each
  guard gives the value its rule works on when the rule's condition holds.
\<close>

definition respond ::
  "env \<Rightarrow> string \<Rightarrow> string option \<Rightarrow> string option \<Rightarrow> string list option \<Rightarrow> intent \<times> reply result" where
  "respond w text season_year player_name players_in_text =
     (if top_trigger text then (TopScorers, top_scorers_branch w season_year)
      else
        (case career_guard player_name text of
           Some name \<Rightarrow> (CareerAverages, career_branch w name)
         | None \<Rightarrow>
        (case bio_guard player_name text of
           Some name \<Rightarrow> (Bio, get_player_bio w name)
         | None \<Rightarrow>
        (case list_guard players_in_text of
           Some found \<Rightarrow> (Compare, compare_branch w found season_year)
         | None \<Rightarrow>
        (case name_guard player_name of
           None \<Rightarrow> (Unrecognized, Inr (Text not_recognized), [])
         | Some name \<Rightarrow> (SeasonStat, season_stat_branch w text name season_year))))))"

text \<open>\<open>generate_response(user_input)\<close>, with the session state passed in and returned.\<close>

definition generate_response :: "env \<Rightarrow> session_state \<Rightarrow> string \<Rightarrow> outcome" where
  "generate_response w st user_input =
     (let text = lower user_input;
          year = extract_season_year text;
          players_in_text = find_multiple_players (all_players w) text;
          (season_year, st1) = resolve_season st year;
          (player_name, st2) = resolve_player w st1 user_input;
          (i, r, cs) = respond w text season_year player_name players_in_text
      in \<lparr>intent = i, response = r, state = st2, calls = cs\<rparr>)"

section \<open>The intent router as the specification words it\<close>

text \<open>
  An ordered list of pairs of a trigger condition and an intent; the first pair whose
  condition holds gives the intent, and the terminal failure is left when none does.
\<close>

definition spec_rules :: "string \<Rightarrow> bool \<Rightarrow> bool \<Rightarrow> (bool \<times> intent) list" where
  "spec_rules text player_resolved two_found =
     [(contains ''top'' text
         \<and> (contains ''scorers'' text \<or> contains ''points'' text \<or> contains ''ppg'' text),
       TopScorers),
      (player_resolved
         \<and> (contains ''career'' text \<or> contains ''all-time'' text \<or> contains ''all time'' text),
       CareerAverages),
      (player_resolved \<and> (contains ''bio'' text \<or> contains ''info'' text), Bio),
      (two_found, Compare),
      (player_resolved, SeasonStat)]"

fun first_match :: "(bool \<times> intent) list \<Rightarrow> intent" where
  "first_match [] = Unrecognized"
| "first_match ((condition, i) # rules) = (if condition then i else first_match rules)"

definition spec_router :: "string \<Rightarrow> bool \<Rightarrow> bool \<Rightarrow> intent" where
  "spec_router text player_resolved two_found =
     first_match (spec_rules text player_resolved two_found)"

text \<open>
  The handler of each intent, on the entities resolved for the turn; none where the intent
  lacks the entity it works on.
\<close>

fun spec_handler ::
  "env \<Rightarrow> string \<Rightarrow> string option \<Rightarrow> string option \<Rightarrow> string list option \<Rightarrow> intent
   \<Rightarrow> reply result option" where
  "spec_handler w text season_year player two TopScorers = Some (top_scorers_branch w season_year)"
| "spec_handler w text season_year (Some name) two CareerAverages = Some (career_branch w name)"
| "spec_handler w text season_year (Some name) two Bio = Some (get_player_bio w name)"
| "spec_handler w text season_year player (Some found) Compare = Some (compare_branch w found season_year)"
| "spec_handler w text season_year (Some name) two SeasonStat =
     Some (season_stat_branch w text name season_year)"
| "spec_handler w text season_year player two Unrecognized = Some (Inr (Text not_recognized), [])"
| "spec_handler w text season_year player two i = None"

section \<open>The similarity matcher of the standard library\<close>

text \<open>
  \<open>difflib.get_close_matches(word, possibilities, n, cutoff=0.5)\<close> as the code calls it: a
  \<open>SequenceMatcher\<close> without a junk test and with the automatic junk heuristic, the candidate
  as its first sequence \<open>a\<close> and the word as its second sequence \<open>b\<close>. A ratio is carried
  as the rational \<open>2 * matches / length\<close>; the library computes it in floating point, which
  compares in the same way with the cutoff and with another ratio as long as the lengths
  stay below \<open>2^26\<close>. The code calls with \<open>n = 1\<close>; the library rejects \<open>n = 0\<close>, which the
  model does not show.
\<close>

text \<open>
  The popular characters of \<open>b\<close>: in a sequence of 200 or more, those that occur more often
  than one per cent of its length plus one; they are left out of the index of \<open>b\<close>.
\<close>

definition popular :: "string \<Rightarrow> char list" where
  "popular b =
     (if 200 \<le> length b
      then filter (\<lambda>c. length b div 100 + 1 < count_list b c) (remdups b)
      else [])"

text \<open>
  One row of \<open>find_longest_match\<close>: \<open>k\<close> is the length of the match that ends at \<open>a[i]\<close>,
  \<open>b[j]\<close>; a longer match than the best one replaces it.
\<close>

fun row_best :: "nat \<Rightarrow> nat \<Rightarrow> nat list \<Rightarrow> nat \<times> nat \<times> nat \<Rightarrow> nat \<times> nat \<times> nat" where
  "row_best i j [] best = best"
| "row_best i j (k # ks) (besti, bestj, bestsize) =
     row_best i (Suc j) ks
       (if bestsize < k then (Suc i - k, Suc j - k, k) else (besti, bestj, bestsize))"

text \<open>The loop over \<open>a\<close>: the new row from the row before, shifted by one.\<close>

fun scan_rows ::
  "char list \<Rightarrow> string \<Rightarrow> nat \<Rightarrow> string \<Rightarrow> nat list \<Rightarrow> nat \<times> nat \<times> nat \<Rightarrow> nat \<times> nat \<times> nat" where
  "scan_rows pop [] i b j2len best = best"
| "scan_rows pop (x # xs) i b j2len best =
     (let newj2len = map2 (\<lambda>c k. if x = c \<and> c \<notin> set pop then Suc k else 0) b (0 # j2len)
      in scan_rows pop xs (Suc i) b newj2len (row_best i 0 newj2len best))"

text \<open>The number of leading positions at which two sequences agree.\<close>

fun common_prefix :: "string \<Rightarrow> string \<Rightarrow> nat" where
  "common_prefix (x # xs) (y # ys) = (if x = y then Suc (common_prefix xs ys) else 0)"
| "common_prefix _ _ = 0"

text \<open>
  \<open>find_longest_match\<close> over all of \<open>a\<close> and \<open>b\<close>: the longest match among the indexed
  characters, the earliest in \<open>a\<close> and then in \<open>b\<close>, grown to the left and to the right over
  equal characters. With no junk test the two loops over junk do nothing.
\<close>

definition find_longest_match :: "char list \<Rightarrow> string \<Rightarrow> string \<Rightarrow> nat \<times> nat \<times> nat" where
  "find_longest_match pop a b =
     (case scan_rows pop a 0 b (replicate (length b) 0) (0, 0, 0) of
        (besti, bestj, bestsize) \<Rightarrow>
          (let grow_left = common_prefix (rev (take besti a)) (rev (take bestj b));
               grow_right = common_prefix (drop (besti + bestsize) a) (drop (bestj + bestsize) b)
           in (besti - grow_left, bestj - grow_left, bestsize + grow_left + grow_right)))"

text \<open>
  The sum of the sizes of \<open>get_matching_blocks\<close>: the longest match, then the same to its
  left and to its right.
\<close>

function matching_size :: "char list \<Rightarrow> string \<Rightarrow> string \<Rightarrow> nat" where
  "matching_size pop a b =
     (let m = find_longest_match pop a b; i = fst m; j = fst (snd m); k = snd (snd m)
      in if k = 0 then 0
         else k
           + (if 0 < i \<and> 0 < j then matching_size pop (take i a) (take j b) else 0)
           + (if i + k < length a \<and> j + k < length b
              then matching_size pop (drop (i + k) a) (drop (j + k) b) else 0))"
  by pat_completeness auto

text \<open>\<open>_calculate_ratio(matches, length)\<close>\<close>

definition calculate_ratio :: "nat \<Rightarrow> nat \<Rightarrow> rat" where
  "calculate_ratio matches len = (if len = 0 then 1 else 2 * of_nat matches / of_nat len)"

definition ratio :: "string \<Rightarrow> string \<Rightarrow> rat" where
  "ratio a b = calculate_ratio (matching_size (popular b) a b) (length a + length b)"

text \<open>\<open>quick_ratio\<close>: the characters the two sequences share, counted with multiplicity.\<close>

definition quick_ratio :: "string \<Rightarrow> string \<Rightarrow> rat" where
  "quick_ratio a b =
     calculate_ratio (sum_list (map (\<lambda>c. min (count_list a c) (count_list b c)) (remdups a)))
       (length a + length b)"

definition real_quick_ratio :: "string \<Rightarrow> string \<Rightarrow> rat" where
  "real_quick_ratio a b = calculate_ratio (min (length a) (length b)) (length a + length b)"

text \<open>The order of Python on strings, and on the pairs of a score and a name.\<close>

fun str_le :: "string \<Rightarrow> string \<Rightarrow> bool" where
  "str_le [] ys = True"
| "str_le (x # xs) [] = False"
| "str_le (x # xs) (y # ys) =
     ((of_char x :: nat) < of_char y \<or> (x = y \<and> str_le xs ys))"

fun scored_le :: "rat \<times> string \<Rightarrow> rat \<times> string \<Rightarrow> bool" where
  "scored_le (s, x) (t, y) = (s < t \<or> (s = t \<and> str_le x y))"

fun insert_desc :: "rat \<times> string \<Rightarrow> (rat \<times> string) list \<Rightarrow> (rat \<times> string) list" where
  "insert_desc p [] = [p]"
| "insert_desc p (q # qs) = (if scored_le p q then q # insert_desc p qs else p # q # qs)"

text \<open>\<open>heapq.nlargest(n, result)\<close>: the \<open>n\<close> largest pairs, the largest first.\<close>

definition nlargest :: "nat \<Rightarrow> (rat \<times> string) list \<Rightarrow> (rat \<times> string) list" where
  "nlargest n xs = take n (foldr insert_desc xs [])"

text \<open>\<open>get_close_matches(word, possibilities, n, cutoff=0.5)\<close>\<close>

definition close_matches :: "string \<Rightarrow> string list \<Rightarrow> nat \<Rightarrow> string list" where
  "close_matches word possibilities n =
     map snd (nlargest n
       (map (\<lambda>x. (ratio x word, x))
         (filter (\<lambda>x. 1 / 2 \<le> real_quick_ratio x word \<and> 1 / 2 \<le> quick_ratio x word
                       \<and> 1 / 2 \<le> ratio x word)
            possibilities)))"

section \<open>A small world to run the code in\<close>

definition demo_roster :: "player list" where
  "demo_roster =
     [\<lparr>player_id = 2544, full_name = ''LeBron James'', is_active = True\<rparr>,
      \<lparr>player_id = 201939, full_name = ''Stephen Curry'', is_active = True\<rparr>,
      \<lparr>player_id = 893, full_name = ''Michael Jordan'', is_active = False\<rparr>]"

definition demo_career :: "int option \<Rightarrow> string + stat_row list" where
  "demo_career pid =
     (if pid = Some 2544 then
        Inr [\<lparr>SEASON_ID = ''2018-19'', TEAM_ABBREVIATION = ''LAL'', PTS = 1505, AST = 454,
              REB = 465, GP = 55, FG_PCT = 51 / 100\<rparr>,
             \<lparr>SEASON_ID = ''2019-20'', TEAM_ABBREVIATION = ''LAL'', PTS = 1698, AST = 684,
              REB = 525, GP = 67, FG_PCT = 49 / 100\<rparr>]
      else if pid = Some 201939 then
        Inr [\<lparr>SEASON_ID = ''2018-19'', TEAM_ABBREVIATION = ''GSW'', PTS = 1881, AST = 361,
              REB = 369, GP = 69, FG_PCT = 47 / 100\<rparr>]
      else Inl ''no career statistics'')"

definition demo_leaders :: "string \<Rightarrow> string + leader_row list" where
  "demo_leaders sid =
     (if sid = ''2019-20'' then
        Inr [\<lparr>PLAYER = ''James Harden'', TEAM = ''HOU'', stat_value = 2335\<rparr>]
      else Inl ''no such season'')"

definition demo_info :: "int \<Rightarrow> string + (string \<times> string option) list" where
  "demo_info pid = Inl ''timed out''"

definition demo_env :: env where
  "demo_env =
     \<lparr>all_players = demo_roster, get_close_matches = close_matches,
      PlayerCareerStats = demo_career, LeagueLeaders = demo_leaders,
      CommonPlayerInfo = demo_info\<rparr>"

text \<open>The same world with a backend whose career endpoint raises.\<close>

definition failing_env :: env where
  "failing_env = demo_env\<lparr>PlayerCareerStats := (\<lambda>pid. Inl ''timed out'')\<rparr>"

text \<open>The same world with a roster whose only player has the id 0.\<close>

definition zero_id_env :: env where
  "zero_id_env =
     demo_env\<lparr>all_players := [\<lparr>player_id = 0, full_name = ''LeBron James'', is_active = True\<rparr>]\<rparr>"

text \<open>The same world with a roster in which one name is a part of the other.\<close>

definition hardaway_env :: env where
  "hardaway_env =
     demo_env\<lparr>all_players :=
       [\<lparr>player_id = 896, full_name = ''Tim Hardaway'', is_active = False\<rparr>,
        \<lparr>player_id = 203501, full_name = ''Tim Hardaway Jr.'', is_active = True\<rparr>]\<rparr>"

definition empty_state :: session_state where
  "empty_state = \<lparr>last_player = None, last_season = None\<rparr>"

section \<open>The similarity matcher: results\<close>

lemma common_prefix_le: "common_prefix xs ys \<le> length xs"
  by (induction xs ys rule: common_prefix.induct) auto

lemma row_best_bound:
  "\<forall>k \<in> set row. k \<le> Suc i \<Longrightarrow> fst best + snd (snd best) \<le> Suc i \<Longrightarrow>
   fst (row_best i j row best) + snd (snd (row_best i j row best)) \<le> Suc i"
proof (induction row arbitrary: j best)
  case Nil
  then show ?case by simp
next
  case (Cons k ks)
  obtain bi bj bs where best: "best = (bi, bj, bs)" by (cases best)
  show ?case unfolding best
    using Cons.prems by (auto simp: best intro!: Cons.IH)
qed

lemma scan_rows_bound:
  "\<forall>k \<in> set j2len. k \<le> i \<Longrightarrow> fst best + snd (snd best) \<le> i \<Longrightarrow>
   fst (scan_rows pop a i b j2len best) + snd (snd (scan_rows pop a i b j2len best))
     \<le> i + length a"
proof (induction a arbitrary: i j2len best)
  case Nil
  then show ?case by simp
next
  case (Cons x xs)
  let ?row = "map2 (\<lambda>c k. if x = c \<and> c \<notin> set pop then Suc k else 0) b (0 # j2len)"
  have row: "\<forall>k \<in> set ?row. k \<le> Suc i"
    using Cons.prems(1) by (auto dest!: set_zip_rightD)
  have best: "fst (row_best i 0 ?row best) + snd (snd (row_best i 0 ?row best)) \<le> Suc i"
    using row Cons.prems(2) by (intro row_best_bound) auto
  show ?case
    using Cons.IH [OF row best] by (simp add: Let_def)
qed

lemma find_longest_match_bound:
  "fst (find_longest_match pop a b) + snd (snd (find_longest_match pop a b)) \<le> length a"
proof -
  obtain bi bj bs where s: "scan_rows pop a 0 b (replicate (length b) 0) (0, 0, 0) = (bi, bj, bs)"
    by (metis prod_cases3)
  have "bi + bs \<le> length a"
    using scan_rows_bound [of "replicate (length b) 0" 0 "(0, 0, 0)" pop a b] by (simp add: s)
  moreover have "common_prefix (rev (take bi a)) (rev (take bj b)) \<le> bi"
    using common_prefix_le [of "rev (take bi a)" "rev (take bj b)"] by simp
  moreover have "common_prefix (drop (bi + bs) a) (drop (bj + bs) b) \<le> length a - (bi + bs)"
    using common_prefix_le [of "drop (bi + bs) a" "drop (bj + bs) b"] by simp
  ultimately show ?thesis
    by (simp add: find_longest_match_def s Let_def)
qed

text \<open>Each recursive call of \<open>matching_size\<close> is on a shorter part of \<open>a\<close>.\<close>

termination matching_size
proof (relation "measure (\<lambda>(pop, a, b). length a)")
  show "wf (measure (\<lambda>(pop, a, b). length a))" by simp
next
  fix pop a b m i j k
  assume "m = find_longest_match pop a b" "i = fst m" "j = fst (snd m)" "k = snd (snd m)"
    "k \<noteq> 0"
  then have "i + k \<le> length a" "0 < k"
    using find_longest_match_bound [of pop a b] by auto
  then show "((pop, take i a, take j b), pop, a, b) \<in> measure (\<lambda>(pop, a, b). length a)"
    by simp
next
  fix pop a b m i j k
  assume "m = find_longest_match pop a b" "i = fst m" "j = fst (snd m)" "k = snd (snd m)"
    "k \<noteq> 0" "i + k < length a \<and> j + k < length b"
  then have "0 < k" "i + k < length a" by auto
  then have "length a - (i + k) < length a" by arith
  then show "((pop, drop (i + k) a, drop (j + k) b), pop, a, b)
               \<in> measure (\<lambda>(pop, a, b). length a)"
    by simp
qed

declare matching_size.simps [simp del]

lemma set_insert_desc: "set (insert_desc p qs) = insert p (set qs)"
  by (induction qs) auto

lemma set_foldr_insert_desc: "set (foldr insert_desc xs []) = set xs"
  by (induction xs) (auto simp: set_insert_desc)

lemma close_matches_subset: "set (close_matches word possibilities n) \<subseteq> set possibilities"
proof -
  have "set (nlargest n xs) \<subseteq> set xs" for xs
    unfolding nlargest_def using set_take_subset [of n "foldr insert_desc xs []"]
    by (simp add: set_foldr_insert_desc)
  then show ?thesis
    unfolding close_matches_def by fastforce
qed

section \<open>Season label: results\<close>

lemma digit_val_digit_char: "d < 10 \<Longrightarrow> digit_val (digit_char d) = Some d"
proof -
  assume "d < 10"
  then have "d \<in> {0, 1, 2, 3, 4, 5, 6, 7, 8, 9}" by auto
  then show ?thesis
    by (auto simp: digit_val_def digit_char_def digits_def upt_conv_Cons)
qed

lemma parse_digits_snoc:
  "d < 10 \<Longrightarrow>
   parse_digits acc (s @ [digit_char d]) = map_option (\<lambda>a. 10 * a + d) (parse_digits acc s)"
  by (induction s arbitrary: acc) (auto simp: digit_val_digit_char split: option.splits)

lemma parse_digits_str_nat: "parse_digits 0 (str_nat n) = Some n"
proof (induction n rule: str_nat.induct)
  case (1 n)
  show ?case
  proof (cases "n < 10")
    case True
    then show ?thesis by (simp add: str_nat.simps [of n] digit_val_digit_char)
  next
    case False
    then have "parse_digits 0 (str_nat (n div 10)) = Some (n div 10)" using 1 by simp
    then show ?thesis using False
      by (simp add: str_nat.simps [of n] parse_digits_snoc)
  qed
qed

lemma str_nat_not_Nil: "str_nat n \<noteq> []"
  by (simp add: str_nat.simps [of n])

lemma last_str_nat: "last (str_nat n) = digit_char (n mod 10)"
  by (simp add: str_nat.simps [of n])

lemma py_int_py_str: "0 \<le> i \<Longrightarrow> py_int (py_str i) = Inr i"
  by (simp add: py_int_def py_str_def str_nat_not_Nil parse_digits_str_nat)

lemma last_two_snoc: "xs \<noteq> [] \<Longrightarrow> last_two (xs @ [y]) = [last xs, y]"
proof -
  assume "xs \<noteq> []"
  then obtain ys z where xs: "xs = ys @ [z]" by (metis append_butlast_last_id)
  show ?thesis by (simp add: xs last_two_def)
qed

lemma last_two_str_nat:
  "10 \<le> n \<Longrightarrow> last_two (str_nat n) = [digit_char (n div 10 mod 10), digit_char (n mod 10)]"
  by (simp add: str_nat.simps [of n] last_two_snoc str_nat_not_Nil last_str_nat)

lemma season_id_from_ten:
  "10 \<le> Y \<Longrightarrow> season_id (py_str Y) = Inr (py_str (Y - 1) @ ''-'' @ two_digit_suffix Y)"
  using last_two_str_nat [of "nat Y"]
  by (simp add: season_id_def py_int_py_str two_digit_suffix_def) (simp add: py_str_def)

text \<open>
  C5, as the specification states it, at the year 5: the label is \<open>4-5\<close>, its suffix one
  digit, where the zero-padded suffix of the claim is \<open>05\<close>.
\<close>

theorem season_label_single_digit_year:
  "season_id (py_str 5) = Inr ''4-5''
   \<and> season_id (py_str 5) \<noteq> Inr (py_str (5 - 1) @ ''-'' @ two_digit_suffix 5)"
  by code_simp

text \<open>
  C5, amended: for every integer year \<open>Y\<close> from 10 to 9999, the season label of \<open>Y\<close> is computed
  without an exception and is the decimal numeral of \<open>Y - 1\<close>, a hyphen, and the last two
  digits of \<open>Y\<close>, zero-padded to two digits.
\<close>

theorem season_label_correct:
  "10 \<le> Y \<Longrightarrow> Y \<le> 9999 \<Longrightarrow>
   season_id (py_str Y) = Inr (py_str (Y - 1) @ ''-'' @ two_digit_suffix Y)"
  by (rule season_id_from_ten)

theorem season_label_correct_witness:
  "(10::int) \<le> 2000 \<and> (2000::int) \<le> 9999
   \<and> season_id (py_str 2000) = Inr ''1999-00''
   \<and> season_id (py_str 2022) = Inr ''2021-22''
   \<and> season_id (py_str 1905) = Inr ''1904-05''"
proof -
  have a: "py_str (2000 - 1) @ ''-'' @ two_digit_suffix 2000 = ''1999-00''" by code_simp
  have b: "py_str (2022 - 1) @ ''-'' @ two_digit_suffix 2022 = ''2021-22''" by code_simp
  have c: "py_str (1905 - 1) @ ''-'' @ two_digit_suffix 1905 = ''1904-05''" by code_simp
  show ?thesis
    using season_label_correct [of 2000] season_label_correct [of 2022]
      season_label_correct [of 1905] a b c
    by simp
qed

section \<open>The exact multi-match resolver: results\<close>

lemma scan_names_take:
  "length found < 2 \<Longrightarrow>
   scan_names names text found =
     take 2 (found @ filter (\<lambda>name. contains (lower name) (lower text)) names)"
proof (induction names arbitrary: found)
  case Nil
  then show ?case by simp
next
  case (Cons name names)
  show ?case
  proof (cases "contains (lower name) (lower text)")
    case False
    then show ?thesis using Cons by simp
  next
    case True
    show ?thesis
    proof (cases "length found = 1")
      case True
      then show ?thesis using \<open>contains (lower name) (lower text)\<close> by simp
    next
      case False
      then have empty: "found = []" using Cons.prems by (cases found) auto
      then have short: "length (found @ [name]) < 2" by simp
      have "scan_names names text (found @ [name]) =
              take 2 ((found @ [name]) @ filter (\<lambda>name. contains (lower name) (lower text)) names)"
        by (rule Cons.IH [OF short])
      then show ?thesis using True empty by simp
    qed
  qed
qed

lemma find_multiple_players_two:
  "find_multiple_players ps text = Some found \<Longrightarrow> \<exists>name1 name2. found = [name1, name2]"
proof -
  assume "find_multiple_players ps text = Some found"
  then have "length found = 2"
    by (auto simp: find_multiple_players_def Let_def split: if_splits)
  then show ?thesis
    by (cases found; cases "tl found") auto
qed

text \<open>
  C3, as the specification states it, on a text with three roster names: the resolver does
  not return none, it returns the first two names of the roster order.
\<close>

theorem three_names_counterexample:
  "length (names_present demo_roster ''lebron james, stephen curry and michael jordan'') = 3
   \<and> find_multiple_players demo_roster ''lebron james, stephen curry and michael jordan''
       = Some [''LeBron James'', ''Stephen Curry'']"
  by code_simp

text \<open>
  C3, amended: the resolver scans the roster in its order, testing each full name, case
  ignored, as a substring of the text, and stops at the second hit. It returns none when
  fewer than two roster entries occur in the text, and otherwise the first two of them in
  roster order, also when three or more occur.
\<close>

theorem find_multiple_players_first_two:
  "find_multiple_players ps text =
     (if 2 \<le> length (names_present ps text) then Some (take 2 (names_present ps text)) else None)"
  by (simp add: find_multiple_players_def names_present_def scan_names_take Let_def min_def)

theorem find_multiple_players_first_two_witness:
  "find_multiple_players demo_roster ''stephen curry 2020'' = None
   \<and> find_multiple_players demo_roster ''michael jordan or lebron james''
       = Some [''LeBron James'', ''Michael Jordan'']"
proof -
  have a: "names_present demo_roster ''stephen curry 2020'' = [''Stephen Curry'']"
    by code_simp
  have b: "names_present demo_roster ''michael jordan or lebron james''
             = [''LeBron James'', ''Michael Jordan'']"
    by code_simp
  show ?thesis
    using find_multiple_players_first_two [of demo_roster "''stephen curry 2020''"]
      find_multiple_players_first_two [of demo_roster "''michael jordan or lebron james''"]
    by (simp add: a b)
qed

section \<open>The turn: results\<close>

lemma search_year_not_empty: "search_year b t = Some y \<Longrightarrow> y \<noteq> []"
  by (induction b t rule: search_year.induct) (auto split: if_splits)

lemma fst_resolve_player:
  "fst (resolve_player w (snd (resolve_season st year)) u) = fst (resolve_player w st u)"
  by (simp add: resolve_player_def resolve_season_def split: list.splits)

text \<open>The turn, read off field by field.\<close>

lemma generate_response_parts:
  "generate_response w st u =
     \<lparr>intent = fst (respond w (lower u) (fst (resolve_season st (extract_season_year (lower u))))
                  (fst (resolve_player w st u)) (find_multiple_players (all_players w) (lower u))),
      response = fst (snd (respond w (lower u) (fst (resolve_season st (extract_season_year (lower u))))
                  (fst (resolve_player w st u)) (find_multiple_players (all_players w) (lower u)))),
      state = snd (resolve_player w (snd (resolve_season st (extract_season_year (lower u)))) u),
      calls = snd (snd (respond w (lower u) (fst (resolve_season st (extract_season_year (lower u))))
                  (fst (resolve_player w st u)) (find_multiple_players (all_players w) (lower u))))\<rparr>"
  unfolding generate_response_def Let_def
  by (simp add: split_beta fst_resolve_player)

lemma name_guard_Some: "name_guard p = Some name \<longleftrightarrow> p = Some name \<and> name \<noteq> []"
  by (cases p rule: name_guard.cases) auto

lemma name_guard_None: "name_guard p = None \<longleftrightarrow> \<not> truthy p"
  by (cases p rule: name_guard.cases) auto

lemma list_guard_find_multiple_players:
  "list_guard (find_multiple_players ps text) = find_multiple_players ps text"
proof (cases "find_multiple_players ps text")
  case None
  then show ?thesis by simp
next
  case (Some found)
  then obtain name1 name2 where "found = [name1, name2]"
    using find_multiple_players_two by blast
  then show ?thesis using Some by simp
qed

text \<open>
  C2: on every turn \<open>last_season\<close> is overwritten exactly when the utterance yields a year and
  \<open>last_player\<close> exactly when the closest-name resolver returns a name; a field whose
  resolution fails keeps its stored value. The new state does not depend on what the handler
  did: it is the same whether the handler replied, failed or raised.
\<close>

theorem state_after_turn:
  "state (generate_response w st u) =
     \<lparr>last_player = (case find_closest_names w u 1 of
                       [] \<Rightarrow> last_player st
                     | name # _ \<Rightarrow> Some name),
      last_season = (case extract_season_year (lower u) of
                       None \<Rightarrow> last_season st
                     | Some year \<Rightarrow> Some year)\<rparr>"
proof -
  have year: "\<And>y. extract_season_year (lower u) = Some y \<Longrightarrow> y \<noteq> []"
    by (auto simp: extract_season_year_def dest: search_year_not_empty)
  show ?thesis
    by (cases "extract_season_year (lower u)"; cases "find_closest_names w u 1")
      (auto simp: generate_response_parts resolve_player_def resolve_season_def dest: year)
qed

theorem state_after_turn_witness:
  "state (generate_response failing_env empty_state ''LeBron James points 2020'')
     = \<lparr>last_player = Some ''LeBron James'', last_season = Some ''2020''\<rparr>
   \<and> response (generate_response failing_env empty_state ''LeBron James points 2020'')
     = Inl (BackendException ''timed out'')
   \<and> state (generate_response demo_env
        \<lparr>last_player = Some ''LeBron James'', last_season = Some ''2020''\<rparr> ''what about rebounds'')
     = \<lparr>last_player = Some ''LeBron James'', last_season = Some ''2020''\<rparr>"
proof -
  have a: "find_closest_names failing_env ''LeBron James points 2020'' (Suc 0) = [''LeBron James'']"
    by code_simp
  have b: "extract_season_year (lower ''LeBron James points 2020'') = Some ''2020''"
    by code_simp
  have c: "find_closest_names demo_env ''what about rebounds'' (Suc 0) = []"
    by code_simp
  have d: "extract_season_year (lower ''what about rebounds'') = None"
    by code_simp
  have e: "response (generate_response failing_env empty_state ''LeBron James points 2020'')
             = Inl (BackendException ''timed out'')"
    by code_simp
  have f: "last_player empty_state = None"
    by (simp add: empty_state_def)
  show ?thesis
    using state_after_turn [of failing_env empty_state "''LeBron James points 2020''"]
      state_after_turn [of demo_env
        "\<lparr>last_player = Some ''LeBron James'', last_season = Some ''2020''\<rparr>"
        "''what about rebounds''"]
    by (simp add: a b c d e f)
qed

text \<open>
  C7: when the utterance matches the top-scorers trigger and no season is resolved for the
  turn (no year in the utterance, none stored), the reply is the prompt for a year and no
  backend call is made.
\<close>

theorem top_scorers_without_season:
  assumes "top_trigger (lower u)"
    and "extract_season_year (lower u) = None"
    and "\<not> truthy (last_season st)"
  shows "intent (generate_response w st u) = TopScorers
         \<and> response (generate_response w st u) = Inr (Text year_prompt)
         \<and> calls (generate_response w st u) = []"
proof -
  have "top_scorers_branch w (last_season st) = (Inr (Text year_prompt), [])"
    using assms(3) by (cases "last_season st" rule: name_guard.cases) auto
  then show ?thesis
    using assms(1,2) by (simp add: generate_response_parts respond_def resolve_season_def)
qed

theorem top_scorers_without_season_witness:
  "top_trigger (lower ''Top scorers'')
   \<and> extract_season_year (lower ''Top scorers'') = None
   \<and> \<not> truthy (last_season empty_state)
   \<and> response (generate_response demo_env empty_state ''Top scorers'') = Inr (Text year_prompt)
   \<and> calls (generate_response demo_env empty_state ''Top scorers'') = []"
proof -
  have a: "top_trigger (lower ''Top scorers'')" by code_simp
  have b: "extract_season_year (lower ''Top scorers'') = None" by code_simp
  have c: "\<not> truthy (last_season empty_state)" by (simp add: empty_state_def)
  show ?thesis
    using top_scorers_without_season [OF a b c, of demo_env] a b c by simp
qed

section \<open>The handlers: results\<close>

text \<open>
  C8: the career averages of a player are the fields of the last row of the career table
  that the backend returns (the most recent season), not a mean over the seasons.
\<close>

theorem career_averages_last_row:
  assumes "PlayerCareerStats w (Some pid) = Inr df" and "df \<noteq> []"
  shows "get_career_averages w pid =
           (Inr \<lparr>avg_pts = PTS (last df), avg_ast = AST (last df), avg_reb = REB (last df),
                 avg_games = GP (last df), avg_fg_pct = FG_PCT (last df)\<rparr>,
            [CareerStatsCall (Some pid)])"
  using assms by (simp add: get_career_averages_def Let_def)

theorem career_averages_last_row_witness:
  "(\<exists>df. PlayerCareerStats demo_env (Some 2544) = Inr df \<and> df \<noteq> []
         \<and> map PTS df = [1505, 1698])
   \<and> fst (get_career_averages demo_env 2544)
       = Inr \<lparr>avg_pts = 1698, avg_ast = 684, avg_reb = 525, avg_games = 67,
              avg_fg_pct = 49 / 100\<rparr>
   \<and> (1698::rat) \<noteq> (1505 + 1698) / 2"
proof -
  define df where "df =
     [\<lparr>SEASON_ID = ''2018-19'', TEAM_ABBREVIATION = ''LAL'', PTS = 1505, AST = 454,
       REB = 465, GP = 55, FG_PCT = 51 / 100\<rparr>,
      \<lparr>SEASON_ID = ''2019-20'', TEAM_ABBREVIATION = ''LAL'', PTS = 1698, AST = 684,
       REB = 525, GP = 67, FG_PCT = 49 / 100\<rparr>]"
  have a: "PlayerCareerStats demo_env (Some 2544) = Inr df"
    by (simp add: demo_env_def demo_career_def df_def)
  have b: "df \<noteq> []" by (simp add: df_def)
  have c: "map PTS df = [1505, 1698]" by (simp add: df_def)
  have "fst (get_career_averages demo_env 2544)
          = Inr \<lparr>avg_pts = 1698, avg_ast = 684, avg_reb = 525, avg_games = 67,
                 avg_fg_pct = 49 / 100\<rparr>"
    using career_averages_last_row [OF a b] by (simp add: df_def)
  then show ?thesis using a b c by auto
qed

text \<open>The wrapped sibling: an exception of the league-leaders call becomes a reply.\<close>

lemma league_leaders_exception_caught:
  "season_id y = Inr sid \<Longrightarrow> LeagueLeaders w sid = Inl msg \<Longrightarrow>
   get_top_scorers w y stat =
     (Inr (Text (''Couldn'' @ apostrophe @ ''t fetch top '' @ stat @ '' leaders for '' @ sid @ ''.'')),
      [LeagueLeadersCall sid])"
  by (simp add: get_top_scorers_def)

text \<open>The unwrapped calls: an exception of the career endpoint leaves the function.\<close>

lemma career_averages_exception_escapes:
  "PlayerCareerStats w (Some pid) = Inl msg \<Longrightarrow>
   fst (get_career_averages w pid) = Inl (BackendException msg)"
  by (simp add: get_career_averages_def)

lemma stats_for_season_exception_escapes:
  "PlayerCareerStats w pid = Inl msg \<Longrightarrow>
   fst (get_stats_for_season w pid season_year) = Inl (BackendException msg)"
  by (simp add: get_stats_for_season_def)

text \<open>
  C4 asks that an exception of the career-table lookup becomes a reply. In the world whose
  career endpoint raises \<open>timed out\<close>, both turns below end with that exception leaving
  \<open>generate_response\<close>: neither \<open>get_career_averages\<close> nor \<open>get_stats_for_season\<close> has the
  \<open>try\<close> that \<open>get_top_scorers\<close> and \<open>get_player_bio\<close> have.
\<close>

theorem career_lookup_exception_escapes:
  "response (generate_response failing_env empty_state ''LeBron James career'')
     = Inl (BackendException ''timed out'')
   \<and> response (generate_response failing_env empty_state ''LeBron James points 2020'')
     = Inl (BackendException ''timed out'')"
  by code_simp

section \<open>The id lookup: results\<close>

lemma find_player_id_find:
  "find_player_id ps name =
     map_option player_id (find (\<lambda>p. lower (full_name p) = lower name) ps)"
  by (induction ps) auto

lemma find_player_id_found:
  "name \<in> set (player_names ps) \<Longrightarrow> \<exists>p \<in> set ps. find_player_id ps name = Some (player_id p)"
  by (induction ps) (auto simp: player_names_def)

lemma find_multiple_players_subset:
  "find_multiple_players ps text = Some found \<Longrightarrow> set found \<subseteq> set (player_names ps)"
  by (auto simp: find_multiple_players_def names_present_def scan_names_take Let_def
      split: if_splits dest!: in_set_takeD)

lemma respond_CareerAverages:
  "fst (respond w t s p two) = CareerAverages \<Longrightarrow>
   \<exists>name. name_guard p = Some name \<and> snd (respond w t s p two) = career_branch w name"
  by (auto simp: respond_def career_guard_def bio_guard_def split: if_splits option.splits)

text \<open>The career rule for a name whose id passes the test \<open>not pid\<close>.\<close>

lemma career_branch_found:
  "find_player_id (all_players w) name = Some i \<Longrightarrow> i \<noteq> 0 \<Longrightarrow>
   career_branch w name =
     (case get_career_averages w i of
        (Inl e, cs) \<Rightarrow> (Inl e, cs)
      | (Inr career, cs) \<Rightarrow> (Inr (CareerAveragesReply name career), cs))"
  by (simp add: career_branch_def Let_def)

text \<open>
  The condition on the ids below is needed: on a roster whose player has the id 0, the
  lookup returns that id, not none, and \<open>not pid\<close> takes the branch all the same.
\<close>

lemma zero_id_reaches_not_found:
  "''LeBron James'' \<in> set (player_names (all_players zero_id_env))
   \<and> find_closest_names zero_id_env ''LeBron James career'' 1 = [''LeBron James'']
   \<and> find_player_id (all_players zero_id_env) ''LeBron James'' = Some 0
   \<and> response (generate_response zero_id_env empty_state ''LeBron James career'')
       = Inr (Text ''Player LeBron James not found.'')"
  by code_simp

text \<open>
  C10: with the matcher of the standard library and a roster of the backend, whose ids are
  player numbers, none of them 0. Both resolvers return names of the roster list only. For
  every name of the roster list the id lookup returns an id, that of the first roster entry
  with the name, case ignored, never none, and the id passes the test \<open>not pid\<close>. Hence
  after a successful fuzzy resolution the condition of the branch that replies \<open>Player ...
  not found\<close> is false, and a turn that takes the career rule is the career lookup for that
  id, not that branch.
\<close>

theorem not_found_branch_unreachable:
  assumes "get_close_matches w = close_matches"
    and "0 \<notin> player_id ` set (all_players w)"
  shows "set (find_closest_names w u n) \<subseteq> set (player_names (all_players w))
    \<and> (\<forall>found. find_multiple_players (all_players w) t = Some found \<longrightarrow>
          set found \<subseteq> set (player_names (all_players w)))
    \<and> (\<forall>name \<in> set (player_names (all_players w)).
          find_player_id (all_players w) name
            = map_option player_id
                (find (\<lambda>p. lower (full_name p) = lower name) (all_players w))
          \<and> find_player_id (all_players w) name \<noteq> None
          \<and> \<not> falsy_id (find_player_id (all_players w) name))
    \<and> (\<forall>name rest. find_closest_names w u 1 = name # rest \<longrightarrow>
          (\<exists>i. find_player_id (all_players w) name = Some i \<and> i \<noteq> 0
            \<and> \<not> falsy_id (find_player_id (all_players w) name)
            \<and> (intent (generate_response w st u) = CareerAverages \<longrightarrow>
                 (response (generate_response w st u), calls (generate_response w st u))
                   = (case get_career_averages w i of
                        (Inl e, cs) \<Rightarrow> (Inl e, cs)
                      | (Inr career, cs) \<Rightarrow> (Inr (CareerAveragesReply name career), cs)))))"
proof -
  let ?names = "player_names (all_players w)"
  have fuzzy: "set (find_closest_names w u k) \<subseteq> set ?names" for k
    using close_matches_subset by (simp add: find_closest_names_def assms(1))
  have exact: "\<forall>found. find_multiple_players (all_players w) t = Some found \<longrightarrow>
                 set found \<subseteq> set ?names"
    using find_multiple_players_subset by blast
  have id: "\<exists>i. find_player_id (all_players w) name = Some i \<and> i \<noteq> 0"
    if mem: "name \<in> set ?names" for name
  proof -
    obtain p where "p \<in> set (all_players w)"
        "find_player_id (all_players w) name = Some (player_id p)"
      using find_player_id_found [OF mem] by blast
    then show ?thesis using assms(2) by force
  qed
  have lookup: "\<forall>name \<in> set ?names.
          find_player_id (all_players w) name
            = map_option player_id
                (find (\<lambda>p. lower (full_name p) = lower name) (all_players w))
          \<and> find_player_id (all_players w) name \<noteq> None
          \<and> \<not> falsy_id (find_player_id (all_players w) name)"
    using id find_player_id_find by fastforce
  have turn: "\<exists>i. find_player_id (all_players w) name = Some i \<and> i \<noteq> 0
            \<and> \<not> falsy_id (find_player_id (all_players w) name)
            \<and> (intent (generate_response w st u) = CareerAverages \<longrightarrow>
                 (response (generate_response w st u), calls (generate_response w st u))
                   = (case get_career_averages w i of
                        (Inl e, cs) \<Rightarrow> (Inl e, cs)
                      | (Inr career, cs) \<Rightarrow> (Inr (CareerAveragesReply name career), cs)))"
    if resolved: "find_closest_names w u 1 = name # rest" for name rest
  proof -
    have "name \<in> set ?names" using fuzzy [of 1] resolved by simp
    then obtain i where i: "find_player_id (all_players w) name = Some i" "i \<noteq> 0"
      using id by blast
    have player: "fst (resolve_player w st u) = Some name"
      using resolved by (simp add: resolve_player_def)
    have "(response (generate_response w st u), calls (generate_response w st u))
            = career_branch w name"
      if career: "intent (generate_response w st u) = CareerAverages"
    proof -
      let ?season = "fst (resolve_season st (extract_season_year (lower u)))"
      let ?two = "find_multiple_players (all_players w) (lower u)"
      have "fst (respond w (lower u) ?season (Some name) ?two) = CareerAverages"
        using career player by (simp add: generate_response_parts)
      then obtain name' where "name_guard (Some name) = Some name'"
          and "snd (respond w (lower u) ?season (Some name) ?two) = career_branch w name'"
        using respond_CareerAverages by blast
      then have "snd (respond w (lower u) ?season (Some name) ?two) = career_branch w name"
        by (simp add: name_guard_Some)
      then show ?thesis using player by (simp add: generate_response_parts)
    qed
    then show ?thesis using i career_branch_found [OF i] by simp
  qed
  show ?thesis using fuzzy [of n] exact lookup turn by blast
qed

theorem not_found_branch_unreachable_witness:
  "get_close_matches demo_env = close_matches
   \<and> 0 \<notin> player_id ` set (all_players demo_env)
   \<and> find_closest_names demo_env ''LeBron James career'' 1 = [''LeBron James'']
   \<and> find_player_id (all_players demo_env) ''LeBron James'' = Some 2544
   \<and> intent (generate_response demo_env empty_state ''LeBron James career'') = CareerAverages
   \<and> response (generate_response demo_env empty_state ''LeBron James career'')
       = Inr (CareerAveragesReply ''LeBron James''
               \<lparr>avg_pts = 1698, avg_ast = 684, avg_reb = 525, avg_games = 67,
                avg_fg_pct = 49 / 100\<rparr>)"
proof -
  have a: "get_close_matches demo_env = close_matches" by (simp add: demo_env_def)
  have b: "0 \<notin> player_id ` set (all_players demo_env)"
    by (simp add: demo_env_def demo_roster_def)
  have c: "find_closest_names demo_env ''LeBron James career'' 1 = [''LeBron James'']"
    by code_simp
  have d: "find_player_id (all_players demo_env) ''LeBron James'' = Some 2544" by code_simp
  have e: "intent (generate_response demo_env empty_state ''LeBron James career'')
             = CareerAverages" by code_simp
  have f: "get_career_averages demo_env 2544
             = (Inr \<lparr>avg_pts = 1698, avg_ast = 684, avg_reb = 525, avg_games = 67,
                     avg_fg_pct = 49 / 100\<rparr>,
                [CareerStatsCall (Some 2544)])" by code_simp
  have "\<exists>i. find_player_id (all_players demo_env) ''LeBron James'' = Some i
          \<and> (response (generate_response demo_env empty_state ''LeBron James career''),
              calls (generate_response demo_env empty_state ''LeBron James career''))
            = (case get_career_averages demo_env i of
                 (Inl e, cs) \<Rightarrow> (Inl e, cs)
               | (Inr career, cs) \<Rightarrow> (Inr (CareerAveragesReply ''LeBron James'' career), cs))"
    using not_found_branch_unreachable [OF a b, of "''LeBron James career''" 1 "[]"
        empty_state] c e
    by blast
  then have "response (generate_response demo_env empty_state ''LeBron James career'')
       = Inr (CareerAveragesReply ''LeBron James''
               \<lparr>avg_pts = 1698, avg_ast = 684, avg_reb = 525, avg_games = 67,
                avg_fg_pct = 49 / 100\<rparr>)"
    by (auto simp: d f)
  then show ?thesis using a b c d e by simp
qed

section \<open>Season lookups: results\<close>

text \<open>With a season year, the row is the first one whose label is the computed label.\<close>

lemma select_row_season:
  "y \<noteq> [] \<Longrightarrow> season_id y = Inr sid \<Longrightarrow>
   select_row df (Some y) =
     (case filter (\<lambda>row. SEASON_ID row = sid) df of
        [] \<Rightarrow> Inr None
      | row # _ \<Rightarrow> Inr (Some row))"
  by (cases y) simp_all

text \<open>Without one, the row is the last one of a table that has rows.\<close>

lemma select_row_no_season:
  "\<not> truthy season_year \<Longrightarrow> df \<noteq> [] \<Longrightarrow> select_row df season_year = Inr (Some (last df))"
  by (cases season_year rule: name_guard.cases) auto

lemma stats_for_season_missing:
  assumes "PlayerCareerStats w pid = Inr df" and "y \<noteq> []" and "season_id y = Inr sid"
    and "filter (\<lambda>row. SEASON_ID row = sid) df = []"
  shows "get_stats_for_season w pid (Some y) = (Inr None, [CareerStatsCall pid])"
  using assms by (simp add: get_stats_for_season_def select_row_season)

lemma stats_for_season_returns:
  assumes "PlayerCareerStats w pid = Inr df" and "y \<noteq> []" and "season_id y = Inr sid"
  shows "\<exists>s. get_stats_for_season w pid (Some y) = (Inr s, [CareerStatsCall pid])"
  using assms
  by (simp add: get_stats_for_season_def select_row_season split: list.splits)

text \<open>
  C9, as the specification states it, on a comparison where the second player has no row for
  the season: the reply is the text below, with the year as the utterance has it, and
  neither player's name occurs in it.
\<close>

theorem compare_unavailable_names_no_player:
  "intent (generate_response demo_env empty_state ''LeBron James Stephen Curry 2020'') = Compare
   \<and> response (generate_response demo_env empty_state ''LeBron James Stephen Curry 2020'')
       = Inr (Text (cross_mark @ '' Stats not available for one or both players in 2020.''))
   \<and> \<not> contains ''LeBron James''
         (cross_mark @ '' Stats not available for one or both players in 2020.'')
   \<and> \<not> contains ''Stephen Curry''
         (cross_mark @ '' Stats not available for one or both players in 2020.'')"
  by code_simp

text \<open>
  C9, amended: in a comparison where both players resolve to an id, a season year is
  resolved and both career lookups return a table, if either table has no row for the
  season label, the reply is the failure text \<open>Stats not available for one or both players in
  {year}.\<close>, which names the season by the calendar year as resolved and is the same for
  every pair of players.
\<close>

theorem compare_unavailable_message:
  assumes "\<not> falsy_id (find_player_id (all_players w) name1)"
    and "\<not> falsy_id (find_player_id (all_players w) name2)"
    and "PlayerCareerStats w (find_player_id (all_players w) name1) = Inr df1"
    and "PlayerCareerStats w (find_player_id (all_players w) name2) = Inr df2"
    and "y \<noteq> []" and "season_id y = Inr sid"
    and "filter (\<lambda>row. SEASON_ID row = sid) df1 = []
         \<or> filter (\<lambda>row. SEASON_ID row = sid) df2 = []"
  shows "fst (compare_players w name1 name2 (Some y)) =
           Inr (Text (cross_mark @ '' Stats not available for one or both players in '' @ y @ ''.''))"
proof -
  let ?id1 = "find_player_id (all_players w) name1"
  let ?id2 = "find_player_id (all_players w) name2"
  obtain s1 where s1: "get_stats_for_season w ?id1 (Some y) = (Inr s1, [CareerStatsCall ?id1])"
    using stats_for_season_returns [OF assms(3,5,6)] by blast
  obtain s2 where s2: "get_stats_for_season w ?id2 (Some y) = (Inr s2, [CareerStatsCall ?id2])"
    using stats_for_season_returns [OF assms(4,5,6)] by blast
  have "s1 = None \<or> s2 = None"
    using assms(7) s1 s2
      stats_for_season_missing [OF assms(3,5,6)] stats_for_season_missing [OF assms(4,5,6)]
    by auto
  then show ?thesis
    using assms(1,2) s1 s2
    by (auto simp: compare_players_def Let_def split: option.splits)
qed

theorem compare_unavailable_message_witness:
  "\<not> falsy_id (find_player_id (all_players demo_env) ''LeBron James'')
   \<and> \<not> falsy_id (find_player_id (all_players demo_env) ''Stephen Curry'')
   \<and> season_id ''2020'' = Inr ''2019-20''
   \<and> fst (compare_players demo_env ''LeBron James'' ''Stephen Curry'' (Some ''2020''))
       = Inr (Text (cross_mark @ '' Stats not available for one or both players in 2020.''))"
proof -
  define df1 where "df1 =
     [\<lparr>SEASON_ID = ''2018-19'', TEAM_ABBREVIATION = ''LAL'', PTS = 1505, AST = 454,
       REB = 465, GP = 55, FG_PCT = 51 / 100\<rparr>,
      \<lparr>SEASON_ID = ''2019-20'', TEAM_ABBREVIATION = ''LAL'', PTS = 1698, AST = 684,
       REB = 525, GP = 67, FG_PCT = (49 / 100 :: rat)\<rparr>]"
  define df2 where "df2 =
     [\<lparr>SEASON_ID = ''2018-19'', TEAM_ABBREVIATION = ''GSW'', PTS = 1881, AST = 361,
       REB = 369, GP = 69, FG_PCT = (47 / 100 :: rat)\<rparr>]"
  have i1: "find_player_id (all_players demo_env) ''LeBron James'' = Some 2544" by code_simp
  have i2: "find_player_id (all_players demo_env) ''Stephen Curry'' = Some 201939" by code_simp
  have a: "\<not> falsy_id (find_player_id (all_players demo_env) ''LeBron James'')"
    by (simp add: i1)
  have b: "\<not> falsy_id (find_player_id (all_players demo_env) ''Stephen Curry'')"
    by (simp add: i2)
  have c: "PlayerCareerStats demo_env (find_player_id (all_players demo_env) ''LeBron James'')
             = Inr df1"
    unfolding i1 by (simp add: demo_env_def demo_career_def df1_def)
  have d: "PlayerCareerStats demo_env (find_player_id (all_players demo_env) ''Stephen Curry'')
             = Inr df2"
    unfolding i2 by (simp add: demo_env_def demo_career_def df2_def)
  have e: "''2020'' \<noteq> []" by simp
  have f: "season_id ''2020'' = Inr ''2019-20''" by code_simp
  have g: "filter (\<lambda>row. SEASON_ID row = ''2019-20'') df1 = []
           \<or> filter (\<lambda>row. SEASON_ID row = ''2019-20'') df2 = []"
    by (simp add: df2_def)
  show ?thesis
    using compare_unavailable_message [OF a b c d e f g] a b f by simp
qed

lemma respond_SeasonStat:
  "fst (respond w t s p two) = SeasonStat \<Longrightarrow>
   \<exists>name. name_guard p = Some name \<and> snd (respond w t s p two) = season_stat_branch w t name s"
  by (auto simp: respond_def split: if_splits option.splits)

lemma season_stat_branch_season:
  assumes "PlayerCareerStats w (find_player_id (all_players w) name) = Inr df"
    and "y \<noteq> []" and "season_id y = Inr sid"
  shows "fst (season_stat_branch w t name (Some y)) =
           (case filter (\<lambda>row. SEASON_ID row = sid) df of
              [] \<Rightarrow> Inr (Text (cross_mark @ '' '' @ name @ '' did not play in the '' @ sid @ '' season.''))
            | row # _ \<Rightarrow> Inr (StatReply (choose_subfield t) name (stats_of_row row)))"
proof (cases y)
  case Nil
  then show ?thesis using assms(2) by simp
next
  case (Cons c cs)
  then have "season_id (c # cs) = Inr sid" using assms(3) by simp
  then show ?thesis using assms(1) unfolding Cons
    by (simp add: season_stat_branch_def get_stats_for_season_def split: list.splits)
qed

lemma season_stat_branch_no_season:
  assumes "PlayerCareerStats w (find_player_id (all_players w) name) = Inr df"
    and "\<not> truthy season_year" and "df \<noteq> []"
  shows "fst (season_stat_branch w t name season_year) =
           Inr (StatReply (choose_subfield t) name (stats_of_row (last df)))"
  using assms by (simp add: season_stat_branch_def get_stats_for_season_def select_row_no_season)

text \<open>
  C6: in a turn that takes the single-player rule, for which the career lookup returns a
  table. When a season is resolved, the row is looked up by the exact computed label: the
  reply is made from the first row with that label, and when no row has it the reply is the
  failure that names the label; no other row is used. When no season is resolved, the reply
  is made from the last row of the table.
\<close>

theorem season_stat_exact_match:
  assumes "intent (generate_response w st u) = SeasonStat"
    and "fst (resolve_player w st u) = Some name"
    and "PlayerCareerStats w (find_player_id (all_players w) name) = Inr df"
  shows "(\<forall>y sid. fst (resolve_season st (extract_season_year (lower u))) = Some y \<and> y \<noteq> []
             \<and> season_id y = Inr sid \<longrightarrow>
           response (generate_response w st u) =
             (case filter (\<lambda>row. SEASON_ID row = sid) df of
                [] \<Rightarrow> Inr (Text (cross_mark @ '' '' @ name @ '' did not play in the '' @ sid
                                  @ '' season.''))
              | row # _ \<Rightarrow> Inr (StatReply (choose_subfield (lower u)) name (stats_of_row row))))
         \<and> (\<not> truthy (fst (resolve_season st (extract_season_year (lower u)))) \<and> df \<noteq> [] \<longrightarrow>
             response (generate_response w st u) =
               Inr (StatReply (choose_subfield (lower u)) name (stats_of_row (last df))))"
proof -
  let ?season = "fst (resolve_season st (extract_season_year (lower u)))"
  let ?two = "find_multiple_players (all_players w) (lower u)"
  have "fst (respond w (lower u) ?season (Some name) ?two) = SeasonStat"
    using assms(1,2) by (simp add: generate_response_parts)
  then obtain name' where "name_guard (Some name) = Some name'"
      and branch: "snd (respond w (lower u) ?season (Some name) ?two)
                     = season_stat_branch w (lower u) name' ?season"
    using respond_SeasonStat by blast
  then have "name' = name" by (simp add: name_guard_Some)
  then have reply: "response (generate_response w st u)
                      = fst (season_stat_branch w (lower u) name ?season)"
    using branch assms(2) by (simp add: generate_response_parts)
  show ?thesis
    using season_stat_branch_season [OF assms(3)] season_stat_branch_no_season [OF assms(3)]
    by (simp add: reply)
qed

theorem season_stat_exact_match_witness:
  "intent (generate_response demo_env empty_state ''Stephen Curry rebounds 2020'') = SeasonStat
   \<and> season_id ''2020'' = Inr ''2019-20''
   \<and> response (generate_response demo_env empty_state ''Stephen Curry rebounds 2020'')
       = Inr (Text (cross_mark @ '' Stephen Curry did not play in the 2019-20 season.''))
   \<and> intent (generate_response demo_env empty_state ''Stephen Curry rebounds'') = SeasonStat
   \<and> response (generate_response demo_env empty_state ''Stephen Curry rebounds'')
       = Inr (StatReply Rebounds ''Stephen Curry''
               \<lparr>season = ''2018-19'', team = ''GSW'', pts = 1881, ast = 361, reb = 369,
                games = 69, fg_pct = 47 / 100\<rparr>)"
proof -
  define df where "df =
     [\<lparr>SEASON_ID = ''2018-19'', TEAM_ABBREVIATION = ''GSW'', PTS = 1881, AST = 361,
       REB = 369, GP = 69, FG_PCT = (47 / 100 :: rat)\<rparr>]"
  have i1: "intent (generate_response demo_env empty_state ''Stephen Curry rebounds 2020'')
              = SeasonStat" by code_simp
  have i2: "intent (generate_response demo_env empty_state ''Stephen Curry rebounds'')
              = SeasonStat" by code_simp
  have p1: "fst (resolve_player demo_env empty_state ''Stephen Curry rebounds 2020'')
              = Some ''Stephen Curry''" by code_simp
  have p2: "fst (resolve_player demo_env empty_state ''Stephen Curry rebounds'')
              = Some ''Stephen Curry''" by code_simp
  have id: "find_player_id (all_players demo_env) ''Stephen Curry'' = Some 201939" by code_simp
  have t: "PlayerCareerStats demo_env (find_player_id (all_players demo_env) ''Stephen Curry'')
             = Inr df"
    unfolding id by (simp add: demo_env_def demo_career_def df_def)
  have s1: "fst (resolve_season empty_state
                  (extract_season_year (lower ''Stephen Curry rebounds 2020''))) = Some ''2020''"
    by code_simp
  have s2: "fst (resolve_season empty_state
                  (extract_season_year (lower ''Stephen Curry rebounds''))) = None"
    by code_simp
  have l: "season_id ''2020'' = Inr ''2019-20''" by code_simp
  have c: "choose_subfield (lower ''Stephen Curry rebounds'') = Rebounds" by code_simp
  have r1: "response (generate_response demo_env empty_state ''Stephen Curry rebounds 2020'')
       = Inr (Text (cross_mark @ '' Stephen Curry did not play in the 2019-20 season.''))"
    using season_stat_exact_match [OF i1 p1 t] s1 l by (simp add: df_def)
  have r2: "response (generate_response demo_env empty_state ''Stephen Curry rebounds'')
       = Inr (StatReply Rebounds ''Stephen Curry''
               \<lparr>season = ''2018-19'', team = ''GSW'', pts = 1881, ast = 361, reb = 369,
                games = 69, fg_pct = 47 / 100\<rparr>)"
    using season_stat_exact_match [OF i2 p2 t] s2 c by (simp add: df_def stats_of_row_def)
  show ?thesis using i1 i2 l r1 r2 by simp
qed

section \<open>The intent router: results\<close>

lemma respond_intent:
  "fst (respond w t s p two) = spec_router t (truthy p) (list_guard two \<noteq> None)"
proof (cases "name_guard p")
  case None
  then have "\<not> truthy p" by (simp add: name_guard_None)
  then show ?thesis using None
    by (auto simp: respond_def spec_router_def spec_rules_def top_trigger_def career_guard_def
        bio_guard_def career_trigger_def bio_trigger_def split: option.splits)
next
  case (Some name)
  then have "truthy p" by (cases p rule: name_guard.cases) auto
  then show ?thesis using Some
    by (auto simp: respond_def spec_router_def spec_rules_def top_trigger_def career_guard_def
        bio_guard_def career_trigger_def bio_trigger_def split: option.splits)
qed

text \<open>What the turn returns and calls is what the handler of its intent returns and calls.\<close>

lemma respond_handler:
  "list_guard two = two \<Longrightarrow>
   spec_handler w t s p two (fst (respond w t s p two)) = Some (snd (respond w t s p two))"
proof (cases "top_trigger t")
  case True
  then show ?thesis by (simp add: respond_def)
next
  case no_top: False
  assume two: "list_guard two = two"
  show ?thesis
  proof (cases "career_guard p t")
    case (Some name)
    then have "p = Some name"
      by (auto simp: career_guard_def name_guard_Some split: if_splits)
    then show ?thesis using no_top Some by (simp add: respond_def)
  next
    case no_career: None
    show ?thesis
    proof (cases "bio_guard p t")
      case (Some name)
      then have "p = Some name"
        by (auto simp: bio_guard_def name_guard_Some split: if_splits)
      then show ?thesis using no_top no_career Some by (simp add: respond_def)
    next
      case no_bio: None
      show ?thesis
      proof (cases two)
        case (Some found)
        then show ?thesis using no_top no_career no_bio two by (simp add: respond_def)
      next
        case no_two: None
        show ?thesis
        proof (cases "name_guard p")
          case None
          then show ?thesis using no_top no_career no_bio no_two by (simp add: respond_def)
        next
          case (Some name)
          then have "p = Some name" by (simp add: name_guard_Some)
          then show ?thesis using no_top no_career no_bio no_two Some
            by (simp add: respond_def)
        qed
      qed
    qed
  qed
qed

lemma respond_career:
  assumes "\<not> top_trigger t" and "career_trigger t" and "name_guard p = Some name"
  shows "respond w t s p two = (CareerAverages, career_branch w name)"
  using assms by (simp add: respond_def career_guard_def)

text \<open>
  C1, as the specification states it, on an utterance with \<open>career\<close> in which the matcher
  resolves a player and the exact resolver finds two roster names, and which also has \<open>top\<close>
  and \<open>ppg\<close>: the first rule wins, the intent is the top scorers and not the career
  averages, and no career lookup is made.
\<close>

theorem career_with_top_trigger:
  "contains ''career'' (lower ''Tim Hardaway Jr. career top ppg'')
   \<and> find_closest_names hardaway_env ''Tim Hardaway Jr. career top ppg'' 1
       = [''Tim Hardaway Jr.'']
   \<and> fst (resolve_player hardaway_env empty_state ''Tim Hardaway Jr. career top ppg'')
       = Some ''Tim Hardaway Jr.''
   \<and> find_multiple_players (all_players hardaway_env)
        (lower ''Tim Hardaway Jr. career top ppg'')
       = Some [''Tim Hardaway'', ''Tim Hardaway Jr.'']
   \<and> intent (generate_response hardaway_env empty_state ''Tim Hardaway Jr. career top ppg'')
       = TopScorers
   \<and> intent (generate_response hardaway_env empty_state ''Tim Hardaway Jr. career top ppg'')
       \<noteq> CareerAverages
   \<and> response (generate_response hardaway_env empty_state ''Tim Hardaway Jr. career top ppg'')
       = Inr (Text year_prompt)
   \<and> calls (generate_response hardaway_env empty_state ''Tim Hardaway Jr. career top ppg'') = []"
  by code_simp

text \<open>
  C1, amended: the intent of a turn is the one the ordered rule list of the specification
  gives on the lower-cased utterance: top scorers, career averages, bio, compare, season
  statistics, unrecognized, the first rule whose condition holds; and no later rule is
  evaluated: what the turn returns and what it calls at the backend is what the handler of
  that one intent returns and calls. In particular, for every utterance that contains
  \<open>career\<close>, does not match the top-scorers trigger, in which a player is resolved and in
  which the exact resolver also finds two roster names, the intent is the career averages
  and the turn is the career handler's, run for the resolved player (the closest name when
  there is one, else the stored player), not the comparison.
\<close>

theorem router_first_match_wins:
  "intent (generate_response w st u) =
     spec_router (lower u) (truthy (fst (resolve_player w st u)))
       (find_multiple_players (all_players w) (lower u) \<noteq> None)
   \<and> spec_handler w (lower u) (fst (resolve_season st (extract_season_year (lower u))))
        (fst (resolve_player w st u)) (find_multiple_players (all_players w) (lower u))
        (intent (generate_response w st u))
       = Some (response (generate_response w st u), calls (generate_response w st u))
   \<and> (contains ''career'' (lower u) \<and> \<not> top_trigger (lower u)
        \<and> fst (resolve_player w st u) = Some name \<and> name \<noteq> []
        \<and> find_multiple_players (all_players w) (lower u) \<noteq> None \<longrightarrow>
      intent (generate_response w st u) = CareerAverages
      \<and> (response (generate_response w st u), calls (generate_response w st u))
          = career_branch w name)"
proof -
  have first: "intent (generate_response w st u) =
     spec_router (lower u) (truthy (fst (resolve_player w st u)))
       (find_multiple_players (all_players w) (lower u) \<noteq> None)"
    by (simp add: generate_response_parts respond_intent list_guard_find_multiple_players)
  have handler: "spec_handler w (lower u)
        (fst (resolve_season st (extract_season_year (lower u))))
        (fst (resolve_player w st u)) (find_multiple_players (all_players w) (lower u))
        (intent (generate_response w st u))
       = Some (response (generate_response w st u), calls (generate_response w st u))"
    using respond_handler [OF list_guard_find_multiple_players]
    by (simp add: generate_response_parts)
  have second: "intent (generate_response w st u) = CareerAverages
      \<and> (response (generate_response w st u), calls (generate_response w st u))
          = career_branch w name"
    if "contains ''career'' (lower u)" and "\<not> top_trigger (lower u)"
      and "fst (resolve_player w st u) = Some name" and "name \<noteq> []"
  proof -
    have "career_trigger (lower u)" using that(1) by (simp add: career_trigger_def)
    moreover have "name_guard (fst (resolve_player w st u)) = Some name"
      using that(3,4) by (simp add: name_guard_Some)
    ultimately show ?thesis
      using that(2) by (simp add: generate_response_parts respond_career)
  qed
  show ?thesis using first handler second by blast
qed

theorem router_first_match_wins_witness:
  "contains ''career'' (lower ''career LeBron James Stephen Curry'')
   \<and> \<not> top_trigger (lower ''career LeBron James Stephen Curry'')
   \<and> find_closest_names demo_env ''career LeBron James Stephen Curry'' 1 = [''Stephen Curry'']
   \<and> fst (resolve_player demo_env empty_state ''career LeBron James Stephen Curry'')
       = Some ''Stephen Curry''
   \<and> find_multiple_players (all_players demo_env) (lower ''career LeBron James Stephen Curry'')
       = Some [''LeBron James'', ''Stephen Curry'']
   \<and> intent (generate_response demo_env empty_state ''career LeBron James Stephen Curry'')
       = CareerAverages
   \<and> response (generate_response demo_env empty_state ''career LeBron James Stephen Curry'')
       = Inr (CareerAveragesReply ''Stephen Curry''
               \<lparr>avg_pts = 1881, avg_ast = 361, avg_reb = 369, avg_games = 69,
                avg_fg_pct = 47 / 100\<rparr>)
   \<and> calls (generate_response demo_env empty_state ''career LeBron James Stephen Curry'')
       = [CareerStatsCall (Some 201939)]"
proof -
  have a: "contains ''career'' (lower ''career LeBron James Stephen Curry'')" by code_simp
  have b: "\<not> top_trigger (lower ''career LeBron James Stephen Curry'')" by code_simp
  have m: "find_closest_names demo_env ''career LeBron James Stephen Curry'' 1
             = [''Stephen Curry'']" by code_simp
  have c: "fst (resolve_player demo_env empty_state ''career LeBron James Stephen Curry'')
             = Some ''Stephen Curry''" by code_simp
  have d: "find_multiple_players (all_players demo_env)
             (lower ''career LeBron James Stephen Curry'')
             = Some [''LeBron James'', ''Stephen Curry'']" by code_simp
  have e: "career_branch demo_env ''Stephen Curry''
             = (Inr (CareerAveragesReply ''Stephen Curry''
                      \<lparr>avg_pts = 1881, avg_ast = 361, avg_reb = 369, avg_games = 69,
                       avg_fg_pct = 47 / 100\<rparr>),
                [CareerStatsCall (Some 201939)])" by code_simp
  have f: "''Stephen Curry'' \<noteq> []" by simp
  have g: "find_multiple_players (all_players demo_env)
             (lower ''career LeBron James Stephen Curry'') \<noteq> None"
    by (simp add: d)
  have r: "intent (generate_response demo_env empty_state ''career LeBron James Stephen Curry'')
             = CareerAverages
           \<and> (response (generate_response demo_env empty_state
                  ''career LeBron James Stephen Curry''),
              calls (generate_response demo_env empty_state
                  ''career LeBron James Stephen Curry''))
             = career_branch demo_env ''Stephen Curry''"
    using conjunct2 [OF conjunct2 [OF router_first_match_wins [of demo_env empty_state
        "''career LeBron James Stephen Curry''" "''Stephen Curry''"]]] a b c f g
    by blast
  show ?thesis using a b m c d r by (simp add: e)
qed

end
